theory Spec2Isabelle
  imports Main "HOL-Library.Sublist" "HOL-Library.AList"
begin

section \<open>Values shared by the adapter and the streaming utility\<close>

type_synonym bytes = string

text \<open>
  Go errors. The first block are the sentinel errors of the libraries the code calls
  (the storage client, \<open>context\<close>, \<open>io\<close>); \<open>IOError\<close> is any other failure of the
  transport or of the local disk, with its text; \<open>Errorf\<close> is an error built by
  \<open>fmt.Errorf\<close>, which keeps only the formatted text (the code uses \<open>%s\<close>, never \<open>%w\<close>).
\<close>

datatype error =
    ErrObjectNotExist
  | ErrPrecondition
  | Canceled
  | DeadlineExceeded
  | EOF
  | ErrShortWrite
  | ErrInvalidWrite
  | IOError string
  | Errorf string

text \<open>The method \<open>Error()\<close> of an error: its message.\<close>

fun Error :: "error \<Rightarrow> string" where
  "Error ErrObjectNotExist = ''storage: object doesn't exist''"
| "Error ErrPrecondition = ''googleapi: Error 412: Precondition Failed, conditionNotMet''"
| "Error Canceled = ''context canceled''"
| "Error DeadlineExceeded = ''context deadline exceeded''"
| "Error EOF = ''EOF''"
| "Error ErrShortWrite = ''short write''"
| "Error ErrInvalidWrite = ''invalid write result''"
| "Error (IOError m) = m"
| "Error (Errorf m) = m"

text \<open>A call either returns its results or panics with a message.\<close>

datatype 'a outcome = Returned 'a | Panicked string

section \<open>gcsfs: the behaviour mode and the operations it governs\<close>

text \<open>\<open>type Behaviour int\<close> with the constants numbered by \<open>iota\<close>.\<close>

type_synonym Behaviour = int

definition InvalidBehaviour :: Behaviour where "InvalidBehaviour = 0"
definition Panic :: Behaviour where "Panic = 1"
definition Warn :: Behaviour where "Warn = 2"
definition Ignore :: Behaviour where "Ignore = 3"

record GCS =
  BehaviourMode :: Behaviour
  bucketName :: string

definition New :: "string \<Rightarrow> Behaviour \<Rightarrow> GCS" where
  "New bucket behaviourMode = \<lparr>BehaviourMode = behaviourMode, bucketName = bucket\<rparr>"

text \<open>
  \<open>throwUnimplemented\<close>: the switch over the mode, and the panic after it for a mode
  that matches no case. In mode \<open>Warn\<close> the message is also logged with
  \<open>glog.Warning\<close>; the log is not part of the model. The messages passed by the callers
  contain no formatting verb, so \<open>fmt.Errorf(message)\<close> has \<open>message\<close> as its text.
\<close>

definition throwUnimplemented :: "GCS \<Rightarrow> string \<Rightarrow> error option outcome" where
  "throwUnimplemented g message =
     (if BehaviourMode g = Panic then Panicked message
      else if BehaviourMode g = Warn then Returned (Some (Errorf message))
      else if BehaviourMode g = Ignore then Returned None
      else Panicked ''Uninitialized gcsfs behaviour mode'')"

definition User :: "GCS \<Rightarrow> string outcome" where
  "User g =
     (case throwUnimplemented g ''User method not implemented'' of
        Panicked m \<Rightarrow> Panicked m
      | Returned None \<Rightarrow> Returned ''''
      | Returned (Some e) \<Rightarrow> Returned ''User method not implemented'')"

definition Chmod :: "GCS \<Rightarrow> string \<Rightarrow> nat \<Rightarrow> error option outcome" where
  "Chmod g name perm = throwUnimplemented g ''chmod not implemented''"

definition Chown :: "GCS \<Rightarrow> string \<Rightarrow> string \<Rightarrow> string \<Rightarrow> error option outcome" where
  "Chown g name usr grp = throwUnimplemented g ''chown not implemented''"

definition Chtimes :: "GCS \<Rightarrow> string \<Rightarrow> nat \<Rightarrow> nat \<Rightarrow> error option outcome" where
  "Chtimes g name atime mtime = throwUnimplemented g ''chtimes not implemented''"

definition Walk :: "GCS \<Rightarrow> string \<Rightarrow> error option outcome" where
  "Walk g root = throwUnimplemented g ''walk not implemented''"

text \<open>
  The writers the adapter hands out are the store's object writers: the bucket and key
  they write to, whether the write is conditioned on the key not existing, and the bytes
  written so far. \<open>Append\<close> returns the pair \<open>(nil, err)\<close> with \<open>err\<close> the result of
  \<open>throwUnimplemented\<close>; the writer is the first component, \<open>None\<close> for \<open>nil\<close>.
\<close>

record FileWriter =
  wBucket :: string
  wKey :: string
  wDoesNotExist :: bool
  wBuf :: bytes

definition Append :: "GCS \<Rightarrow> string \<Rightarrow> (FileWriter option \<times> error option) outcome" where
  "Append g name =
     (case throwUnimplemented g ''Append method not implemented'' of
        Panicked m \<Rightarrow> Panicked m
      | Returned err \<Rightarrow> Returned (None, err))"

section \<open>The world outside the code\<close>

text \<open>
  The object store, the local disk and the clock are not code of this repository. They
  are modelled from what the code needs of them: an
  object has content and an update time; a bucket is the list of its keys with their
  objects, in the order in which a listing returns them; the service maps a bucket name
  to its bucket. The remaining fields say how the outside fails: the error of
  \<open>storage.NewClient\<close>, the transient errors of the next calls of \<open>Copier.Run\<close>
  (\<open>None\<close>: that call meets no transient error), the keys whose deletion the store
  refuses, the point at which a listing breaks off, the paths \<open>os.Create\<close> cannot
  create. \<open>copyCalls\<close> counts the copy requests the store has received and \<open>clock\<close>
  the seconds that have passed.
\<close>

record Object =
  content :: bytes
  updated :: nat

type_synonym bucket = "(string \<times> Object) list"

record world =
  buckets :: "string \<Rightarrow> bucket"
  files :: "string \<rightharpoonup> bytes"
  clock :: nat
  copyCalls :: nat
  newClientErr :: "error option"
  runErrs :: "error option list"
  deleteErr :: "string \<Rightarrow> error option"
  listErr :: "(nat \<times> error) option"
  createErr :: "string \<Rightarrow> error option"

definition emptyWorld :: world where
  "emptyWorld = \<lparr>buckets = (\<lambda>b. []), files = Map.empty, clock = 0, copyCalls = 0,
     newClientErr = None, runErrs = [], deleteErr = (\<lambda>k. None), listErr = None,
     createErr = (\<lambda>p. None)\<rparr>"

definition lookupObject :: "world \<Rightarrow> string \<Rightarrow> string \<Rightarrow> Object option" where
  "lookupObject w b k = map_of (buckets w b) k"

text \<open>Storing an object replaces the one under the key or adds the key to the bucket.\<close>

definition putObject :: "string \<Rightarrow> string \<Rightarrow> bytes \<Rightarrow> world \<Rightarrow> world" where
  "putObject b k bs w =
     w\<lparr>buckets := (buckets w)(b := AList.update k \<lparr>content = bs, updated = clock w\<rparr> (buckets w b))\<rparr>"

text \<open>A world whose bucket \<open>b\<close> holds the given keys and bytes, in this order.\<close>

definition withObjects :: "string \<Rightarrow> (string \<times> bytes) list \<Rightarrow> world \<Rightarrow> world" where
  "withObjects b kvs w =
     w\<lparr>buckets := (buckets w)(b := map (\<lambda>(k, bs). (k, \<lparr>content = bs, updated = clock w\<rparr>)) kvs)\<rparr>"

text \<open>
  The world of the repository's test client: the bucket holds the object \<open>MARKER\<close>; the
  argument gives the transient errors the store has in wait for the copy requests.
\<close>

definition markerWorld :: "error option list \<Rightarrow> world" where
  "markerWorld errs = (withObjects ''bucket'' [(''MARKER'', ''mark'')] emptyWorld)\<lparr>runErrs := errs\<rparr>"

text \<open>
  A bucket with three keys under \<open>a/\<close> and one under \<open>b/\<close>; the argument names the
  keys whose deletion the store refuses.
\<close>

definition treeWorld :: "(string \<Rightarrow> error option) \<Rightarrow> world" where
  "treeWorld refused =
     (withObjects ''bucket''
        [(''a/1'', ''one''), (''a/2'', ''two''), (''a/3'', ''three''), (''b/1'', ''four'')]
        emptyWorld)\<lparr>deleteErr := refused\<rparr>"

definition Sleep :: "nat \<Rightarrow> world \<Rightarrow> world" where
  "Sleep secs w = w\<lparr>clock := clock w + secs\<rparr>"

subsection \<open>Contexts and readers\<close>

text \<open>
  A context is \<open>Background\<close>, whose signal never fires, or carries a signal:
  \<open>WithSignal k e\<close> is done, with error \<open>e\<close> (\<open>Canceled\<close> or \<open>DeadlineExceeded\<close>), once
  \<open>k\<close> more reads have been served through it; \<open>WithSignal 0 e\<close> is done already. Time is
  counted in reads, the only moments at which the code looks at the context. A context
  that is done stays done with the same error, as the contract of \<open>Context.Err\<close> says.
\<close>

datatype "context" = Background | WithSignal nat error

fun ctx_Err :: "context \<Rightarrow> error option" where
  "ctx_Err Background = None"
| "ctx_Err (WithSignal 0 e) = Some e"
| "ctx_Err (WithSignal (Suc k) e) = None"

fun elapse :: "context \<Rightarrow> context" where
  "elapse Background = Background"
| "elapse (WithSignal 0 e) = WithSignal 0 e"
| "elapse (WithSignal (Suc k) e) = WithSignal k e"

text \<open>
  An \<open>io.Reader\<close> is either a source outside the code, given by the results its
  successive \<open>Read\<close> calls return (the bytes put into the buffer and the error; once the
  list is used up the source is at its end and returns no bytes and \<open>EOF\<close>), or the
  struct \<open>interruptibleCtx{ctx, r}\<close> of this repository. The number \<open>n\<close> that \<open>Read\<close>
  returns is the length of the bytes; the capacity of the buffer is not modelled.
\<close>

datatype reader =
    Script "(bytes \<times> error option) list"
  | InterruptibleCtx "context" reader

fun Read :: "reader \<Rightarrow> (bytes \<times> error option) \<times> reader" where
  "Read (Script []) = (([], Some EOF), Script [])"
| "Read (Script (x # xs)) = (x, Script xs)"
| "Read (InterruptibleCtx c r) =
     (case ctx_Err c of
        Some err \<Rightarrow> (([], Some err), InterruptibleCtx c r)
      | None \<Rightarrow> (case Read r of (res, r') \<Rightarrow> (res, InterruptibleCtx (elapse c) r')))"

definition NewContextAwareReader :: "context \<Rightarrow> reader \<Rightarrow> reader" where
  "NewContextAwareReader c r = InterruptibleCtx c r"

text \<open>The results a source still has to give: what bounds the copy loop.\<close>

fun remaining :: "reader \<Rightarrow> nat" where
  "remaining (Script xs) = length xs"
| "remaining (InterruptibleCtx c r) = remaining r"

subsection \<open>\<open>io.Copy\<close>\<close>

text \<open>
  The loop of \<open>io.Copy\<close> of the Go library: read; write what was read; stop at the
  first error of either side, where the end of the source is not an error. The
  shortcuts through \<open>WriterTo\<close> and \<open>ReaderFrom\<close> give the same results and are left
  out. \<open>writeChunk\<close> is one pass of the body over a chunk that was read: the write, the
  check of the count the writer reports, the running total.
\<close>

definition writeChunk ::
  "('w \<Rightarrow> bytes \<Rightarrow> (int \<times> error option) \<times> 'w) \<Rightarrow> 'w \<Rightarrow> bytes \<Rightarrow> int
     \<Rightarrow> (int \<times> error option) \<times> 'w" where
  "writeChunk wr w bs written =
     (case wr w bs of
        ((nw, ew), w') \<Rightarrow>
          (let nr = int (length bs);
               bad = (nw < 0 \<or> nr < nw);
               nw1 = (if bad then 0 else nw);
               ew1 = (if bad \<and> ew = None then Some ErrInvalidWrite else ew);
               written1 = written + nw1
           in if ew1 \<noteq> None then ((written1, ew1), w')
              else if nr \<noteq> nw1 then ((written1, Some ErrShortWrite), w')
              else ((written1, None), w')))"

function io_Copy ::
  "('w \<Rightarrow> bytes \<Rightarrow> (int \<times> error option) \<times> 'w) \<Rightarrow> 'w \<Rightarrow> reader \<Rightarrow> int
     \<Rightarrow> (int \<times> error option) \<times> 'w \<times> reader" where
  "io_Copy wr w rd written =
     (case Read rd of
        ((bs, er), rd') \<Rightarrow>
          (case (if bs \<noteq> [] then writeChunk wr w bs written else ((written, None), w)) of
             ((written1, Some ew), w1) \<Rightarrow> ((written1, Some ew), w1, rd')
           | ((written1, None), w1) \<Rightarrow>
               (case er of
                  Some e \<Rightarrow> ((written1, if e = EOF then None else Some e), w1, rd')
                | None \<Rightarrow> io_Copy wr w1 rd' written1)))"
  by pat_completeness auto
termination
proof (relation "measure (\<lambda>(wr, w, rd, written). remaining rd)")
  show "wf (measure (\<lambda>(wr, w, rd, written). remaining rd))"
    by simp
next
  fix wr :: "'w \<Rightarrow> bytes \<Rightarrow> (int \<times> error option) \<times> 'w"
    and w w1 :: 'w and rd rd' :: reader and written written1 :: int
    and x :: "bytes \<times> error option" and bs :: bytes and er :: "error option"
    and y :: "(int \<times> error option) \<times> 'w" and z :: "int \<times> error option"
    and ez :: "error option"
  assume rd: "(x, rd') = Read rd" and x: "(bs, er) = x" and er: "er = None"
  have "remaining b < remaining a" if "Read a = ((c, None), b)" for a b c
    using that
  proof (induction a arbitrary: b)
    case (Script xs)
    then show ?case by (cases xs) auto
  next
    case (InterruptibleCtx c0 a)
    then show ?case by (auto split: option.splits prod.splits)
  qed
  from this [of rd bs rd'] rd x er
  show "((wr, w1, rd', written1), wr, w, rd, written)
          \<in> measure (\<lambda>(wr, w, rd, written). remaining rd)"
    by simp
qed

declare io_Copy.simps [simp del]

subsection \<open>\<open>filepath.Join\<close>\<close>

text \<open>
  \<open>filepath.Join\<close> on a system whose separator is the slash: the elements from the
  first non-empty one on are joined with slashes and the result is cleaned
  (\<open>filepath.Clean\<close>: empty elements and \<open>.\<close> are dropped, \<open>..\<close> removes the element
  before it, or stays when there is none to remove and the path is not rooted).
\<close>

fun splitSlash :: "string \<Rightarrow> string list" where
  "splitSlash [] = [[]]"
| "splitSlash (c # cs) =
     (if c = CHR ''/'' then [] # splitSlash cs
      else (case splitSlash cs of [] \<Rightarrow> [[c]] | e # es \<Rightarrow> (c # e) # es))"

fun joinSlash :: "string list \<Rightarrow> string" where
  "joinSlash [] = []"
| "joinSlash [e] = e"
| "joinSlash (e # es) = e @ CHR ''/'' # joinSlash es"

text \<open>The elements kept so far are held last first.\<close>

definition cleanStep :: "bool \<Rightarrow> string list \<Rightarrow> string \<Rightarrow> string list" where
  "cleanStep rooted out e =
     (if e = [] \<or> e = ''.'' then out
      else if e = ''..'' then
        (case out of
           [] \<Rightarrow> (if rooted then [] else [''..''])
         | e1 # rest \<Rightarrow> (if e1 = ''..'' then ''..'' # out else rest))
      else e # out)"

definition filepath_Clean :: "string \<Rightarrow> string" where
  "filepath_Clean path =
     (if path = [] then ''.''
      else
        (let rooted = (hd path = CHR ''/'');
             body = joinSlash (rev (foldl (cleanStep rooted) [] (splitSlash path)))
         in if rooted then CHR ''/'' # body
            else if body = [] then ''.'' else body))"

fun filepath_Join :: "string list \<Rightarrow> string" where
  "filepath_Join [] = []"
| "filepath_Join (e # es) =
     (if e \<noteq> [] then filepath_Clean (joinSlash (e # es)) else filepath_Join es)"

section \<open>gcsfs: the operations on the store\<close>

text \<open>
  \<open>generateEphemeralClient\<close>: a new client and the handle of the adapter's bucket. The
  transaction id is a fresh random UUID that nothing reads. \<open>client.Bucket\<close> always
  returns a handle, so the branch for a nil bucket is never taken.
\<close>

record TransactionClient =
  tcBucket :: string

definition generateEphemeralClient :: "GCS \<Rightarrow> world \<Rightarrow> error + TransactionClient" where
  "generateEphemeralClient g w =
     (case newClientErr w of
        Some err \<Rightarrow> Inl err
      | None \<Rightarrow> Inr \<lparr>tcBucket = bucketName g\<rparr>)"

subsection \<open>Stat and GetContentSummary\<close>

text \<open>
  \<open>ObjectHandle.Attrs\<close> returns a nil pointer together with
  \<open>storage.ErrObjectNotExist\<close> when the object does not exist.
\<close>

record ObjectAttrs =
  Size :: int
  Updated :: nat

definition Attrs :: "string \<Rightarrow> string \<Rightarrow> world \<Rightarrow> ObjectAttrs option \<times> error option" where
  "Attrs b k w =
     (case lookupObject w b k of
        None \<Rightarrow> (None, Some ErrObjectNotExist)
      | Some ob \<Rightarrow> (Some \<lparr>Size = int (length (content ob)), Updated = updated ob\<rparr>, None))"

record FileInfo =
  fi_name :: string
  fi_size :: int
  fi_mode :: nat
  fi_modTime :: nat
  fi_isDir :: bool

text \<open>
  \<open>Stat\<close> assigns the error of \<open>Attrs\<close> to \<open>err\<close> and never reads it; it builds the
  result from \<open>attrs.Size\<close> and \<open>attrs.Updated\<close>, which dereference \<open>attrs\<close>. On a nil
  \<open>attrs\<close> the Go runtime panics. The mode \<open>0666\<close> is octal.
\<close>

definition Stat :: "GCS \<Rightarrow> string \<Rightarrow> world \<Rightarrow> (FileInfo option \<times> error option) outcome" where
  "Stat g nm w =
     (case generateEphemeralClient g w of
        Inl err \<Rightarrow> Returned (None, Some err)
      | Inr client \<Rightarrow>
          (case Attrs (tcBucket client) nm w of
             (None, err) \<Rightarrow>
               Panicked ''runtime error: invalid memory address or nil pointer dereference''
           | (Some attrs, err) \<Rightarrow>
               Returned (Some \<lparr>fi_name = nm, fi_size = Size attrs, fi_mode = 438,
                                fi_modTime = Updated attrs, fi_isDir = False\<rparr>, None)))"

record ContentSummary =
  Length :: nat
  FileCount :: int
  DirectoryCount :: int
  Quota :: int
  SpaceConsumed :: int
  SpaceQuota :: int

text \<open>\<open>GetContentSummary\<close> makes the same call and returns its error.\<close>

definition GetContentSummary ::
  "GCS \<Rightarrow> string \<Rightarrow> world \<Rightarrow> (ContentSummary option \<times> error option) outcome" where
  "GetContentSummary g path w =
     (case generateEphemeralClient g w of
        Inl err \<Rightarrow> Returned (None, Some err)
      | Inr client \<Rightarrow>
          (case Attrs (tcBucket client) path w of
             (attrs, Some err) \<Rightarrow> Returned (None, Some err)
           | (None, None) \<Rightarrow>
               Panicked ''runtime error: invalid memory address or nil pointer dereference''
           | (Some attrs, None) \<Rightarrow>
               Returned (Some \<lparr>Length = nat (Size attrs mod 2 ^ 64), FileCount = 0,
                                DirectoryCount = 0, Quota = 0, SpaceConsumed = 0,
                                SpaceQuota = 0\<rparr>, None)))"

subsection \<open>Rename\<close>

text \<open>
  \<open>Copier.Run\<close>: one copy request. It fails with the transient error the store has in
  wait for this call, if any, or because the source does not exist; a failed request
  leaves the bucket as it was. Otherwise the destination key holds the source's bytes.
\<close>

definition Copier_Run :: "string \<Rightarrow> string \<Rightarrow> string \<Rightarrow> world \<Rightarrow> error option \<times> world" where
  "Copier_Run b dst src w =
     (let w1 = w\<lparr>runErrs := tl (runErrs w), copyCalls := copyCalls w + 1\<rparr>
      in case runErrs w of
           Some err # rest \<Rightarrow> (Some err, w1)
         | _ \<Rightarrow>
             (case lookupObject w b src of
                None \<Rightarrow> (Some ErrObjectNotExist, w1)
              | Some ob \<Rightarrow> (None, putObject b dst (content ob) w1)))"

function Rename_loop ::
  "string \<Rightarrow> string \<Rightarrow> string \<Rightarrow> nat \<Rightarrow> error option \<Rightarrow> world \<Rightarrow> error option \<times> world" where
  "Rename_loop b newpath oldpath retries err w =
     (if retries < 5 then
        (case Copier_Run b newpath oldpath w of
           (None, w1) \<Rightarrow> (None, w1)
         | (Some err1, w1) \<Rightarrow>
             Rename_loop b newpath oldpath (retries + 1) (Some err1) (Sleep 1 w1))
      else (err, w))"
  by pat_completeness auto
termination
  by (relation "measure (\<lambda>(b, newpath, oldpath, retries, err, w). 5 - retries)") auto

declare Rename_loop.simps [simp del]

definition Rename :: "GCS \<Rightarrow> string \<Rightarrow> string \<Rightarrow> world \<Rightarrow> error option \<times> world" where
  "Rename g oldpath newpath w =
     (case generateEphemeralClient g w of
        Inl err \<Rightarrow> (Some err, w)
      | Inr client \<Rightarrow> Rename_loop (tcBucket client) newpath oldpath 0 None w)"

text \<open>
  The error of attempt number \<open>i\<close> (from 0) of a copy of \<open>oldpath\<close> requested of the world
  \<open>w\<close>, while nothing else changes the bucket: the transient error in wait for that
  call, or the missing source.
\<close>

definition attemptErr :: "world \<Rightarrow> string \<Rightarrow> string \<Rightarrow> nat \<Rightarrow> error option" where
  "attemptErr w b oldpath i =
     (case drop i (runErrs w) of
        Some err # rest \<Rightarrow> Some err
      | _ \<Rightarrow> (case lookupObject w b oldpath of None \<Rightarrow> Some ErrObjectNotExist | Some ob \<Rightarrow> None))"

subsection \<open>RemoveAll\<close>

text \<open>
  \<open>BucketHandle.Objects\<close> with a prefix and no delimiter: the iterator's results, the
  names of the keys that start with the prefix, in the bucket's listing order, and the
  error at which the listing breaks off, if it does. The end of the list is
  \<open>iterator.Done\<close>.
\<close>

definition matching :: "world \<Rightarrow> string \<Rightarrow> string \<Rightarrow> string list" where
  "matching w b pfx = filter (prefix pfx) (map fst (buckets w b))"

definition Objects :: "string \<Rightarrow> string \<Rightarrow> world \<Rightarrow> (error + string) list" where
  "Objects b pfx w =
     (let names = matching w b pfx
      in case listErr w of
           None \<Rightarrow> map Inr names
         | Some (n, err) \<Rightarrow> map Inr (take n names) @ [Inl err])"

definition Object_Delete :: "string \<Rightarrow> string \<Rightarrow> world \<Rightarrow> error option \<times> world" where
  "Object_Delete b k w =
     (case deleteErr w k of
        Some err \<Rightarrow> (Some err, w)
      | None \<Rightarrow>
          (case lookupObject w b k of
             None \<Rightarrow> (Some ErrObjectNotExist, w)
           | Some ob \<Rightarrow> (None, w\<lparr>buckets := (buckets w)(b := AList.delete k (buckets w b))\<rparr>)))"

fun RemoveAll_loop :: "string \<Rightarrow> (error + string) list \<Rightarrow> world \<Rightarrow> error option \<times> world" where
  "RemoveAll_loop b [] w = (None, w)"
| "RemoveAll_loop b (Inl err # rest) w = (Some err, w)"
| "RemoveAll_loop b (Inr nm # rest) w =
     (case Object_Delete b nm w of
        (Some err, w1) \<Rightarrow> (Some err, w1)
      | (None, w1) \<Rightarrow> RemoveAll_loop b rest w1)"

definition RemoveAll :: "GCS \<Rightarrow> string \<Rightarrow> world \<Rightarrow> error option \<times> world" where
  "RemoveAll g dirname w =
     (case generateEphemeralClient g w of
        Inl err \<Rightarrow> (Some err, w)
      | Inr client \<Rightarrow> RemoveAll_loop (tcBucket client) (Objects (tcBucket client) dirname w) w)"

subsection \<open>CopyToLocal\<close>

text \<open>
  \<open>ObjectHandle.NewReader\<close>: the error \<open>storage.ErrObjectNotExist\<close> for a missing key,
  else a reader that delivers the object's bytes and then the end of the stream.
\<close>

definition NewReader :: "string \<Rightarrow> string \<Rightarrow> world \<Rightarrow> error + reader" where
  "NewReader b k w =
     (case lookupObject w b k of
        None \<Rightarrow> Inl ErrObjectNotExist
      | Some ob \<Rightarrow> Inr (Script [(content ob, None)]))"

text \<open>\<open>os.Create\<close> creates the file or truncates it; writing to the file appends.\<close>

definition os_Create :: "string \<Rightarrow> world \<Rightarrow> (error + string) \<times> world" where
  "os_Create path w =
     (case createErr w path of
        Some err \<Rightarrow> (Inl err, w)
      | None \<Rightarrow> (Inr path, w\<lparr>files := (files w)(path \<mapsto> [])\<rparr>))"

definition File_Write :: "string \<Rightarrow> world \<Rightarrow> bytes \<Rightarrow> (int \<times> error option) \<times> world" where
  "File_Write path w bs =
     ((int (length bs), None),
      w\<lparr>files := (files w)(path \<mapsto> (case files w path of None \<Rightarrow> bs | Some old \<Rightarrow> old @ bs))\<rparr>)"

text \<open>
  \<open>CopyToLocal\<close>. The reader is opened on \<open>client.bucket.Object(dst)\<close>: the source reads
  the object named by the local path, and \<open>src\<close> is not used.
\<close>

definition CopyToLocal :: "GCS \<Rightarrow> string \<Rightarrow> string \<Rightarrow> world \<Rightarrow> error option \<times> world" where
  "CopyToLocal g src dst w =
     (case generateEphemeralClient g w of
        Inl err \<Rightarrow> (Some err, w)
      | Inr client \<Rightarrow>
          (case NewReader (tcBucket client) dst w of
             Inl err \<Rightarrow> (Some err, w)
           | Inr rd \<Rightarrow>
               (case os_Create dst w of
                  (Inl err, w1) \<Rightarrow> (Some err, w1)
                | (Inr f, w1) \<Rightarrow>
                    (case io_Copy (File_Write f) w1 rd 0 of
                       ((n, err), w2, rd') \<Rightarrow> (err, w2)))))"

section \<open>gcsutil: streaming into and out of the store\<close>

text \<open>
  The writer of an object (\<open>ObjectHandle.NewWriter\<close>) collects what is written to it.
  \<open>Close\<close> stores the object; under the condition \<open>DoesNotExist\<close> the store refuses
  when the key exists, and the object in place is not touched. Of \<open>GCSUtil\<close> only the
  bucket's name matters: its bucket handle is the handle of that name.
\<close>

record GCSUtil =
  utilBucketName :: string

definition NewWriter :: "string \<Rightarrow> string \<Rightarrow> bool \<Rightarrow> FileWriter" where
  "NewWriter b k doesNotExist = \<lparr>wBucket = b, wKey = k, wDoesNotExist = doesNotExist, wBuf = []\<rparr>"

definition Writer_Write :: "FileWriter \<Rightarrow> bytes \<Rightarrow> (int \<times> error option) \<times> FileWriter" where
  "Writer_Write wc bs = ((int (length bs), None), wc\<lparr>wBuf := wBuf wc @ bs\<rparr>)"

definition Writer_Close :: "FileWriter \<Rightarrow> world \<Rightarrow> error option \<times> world" where
  "Writer_Close wc w =
     (if wDoesNotExist wc \<and> lookupObject w (wBucket wc) (wKey wc) \<noteq> None
      then (Some ErrPrecondition, w)
      else (None, putObject (wBucket wc) (wKey wc) (wBuf wc) w))"

text \<open>
  \<open>StreamIntoDFS\<close> returns the count, the error, and leaves the caller's reader and the
  store in the states given as third and fourth result.
\<close>

definition StreamIntoDFS ::
  "GCSUtil \<Rightarrow> context \<Rightarrow> reader \<Rightarrow> string \<Rightarrow> bool \<Rightarrow> world
     \<Rightarrow> (int \<times> error option) \<times> reader \<times> world" where
  "StreamIntoDFS g ctx rd nm overwrite w =
     (let ctxReader = NewContextAwareReader ctx rd;
          wc = NewWriter (utilBucketName g) nm (\<not> overwrite)
      in case io_Copy Writer_Write wc ctxReader 0 of
           ((n, Some err), wc1, rd1) \<Rightarrow>
             ((n, Some (Errorf (''Error copying from input stream to gcs://''
                   @ filepath_Join [utilBucketName g, nm] @ '' :  '' @ Error err))), rd1, w)
         | ((n, None), wc1, rd1) \<Rightarrow>
             (case Writer_Close wc1 w of
                (Some err, w1) \<Rightarrow> ((n, Some err), rd1, w1)
              | (None, w1) \<Rightarrow> ((n, None), rd1, w1)))"

text \<open>
  The destination of \<open>StreamFromDFS\<close> is any \<open>io.WriteCloser\<close>: what it has accepted,
  the errors its next \<open>Write\<close> calls return (\<open>None\<close>: that call accepts all its bytes),
  the error of its \<open>Close\<close>, and whether it has been closed.
\<close>

record WriteCloser =
  sink :: bytes
  writeErrs :: "error option list"
  closeErr :: "error option"
  closed :: bool

definition WC_Write :: "WriteCloser \<Rightarrow> bytes \<Rightarrow> (int \<times> error option) \<times> WriteCloser" where
  "WC_Write wc bs =
     (case writeErrs wc of
        Some err # rest \<Rightarrow> ((0, Some err), wc\<lparr>writeErrs := rest\<rparr>)
      | _ \<Rightarrow> ((int (length bs), None), wc\<lparr>sink := sink wc @ bs, writeErrs := tl (writeErrs wc)\<rparr>))"

definition WC_Close :: "WriteCloser \<Rightarrow> error option \<times> WriteCloser" where
  "WC_Close wc = (closeErr wc, wc\<lparr>closed := True\<rparr>)"

text \<open>
  \<open>StreamFromDFS\<close> reads through the client it is given, here the world \<open>w\<close>, which it
  does not change; it returns the count, the error and the state of the destination.
\<close>

definition StreamFromDFS ::
  "GCSUtil \<Rightarrow> world \<Rightarrow> string \<Rightarrow> string \<Rightarrow> WriteCloser
     \<Rightarrow> (int \<times> error option) \<times> WriteCloser" where
  "StreamFromDFS g w bucket object writer =
     (case NewReader bucket object w of
        Inl err \<Rightarrow>
          ((0, Some (Errorf (''failed to read object gcs://''
                @ filepath_Join [bucket, object] @ '': '' @ Error err))), writer)
      | Inr rc \<Rightarrow>
          (case io_Copy WC_Write writer rc 0 of
             ((n, Some err), writer1, rc1) \<Rightarrow>
               ((n, Some (Errorf (''failed to fully copy file from GCS - '' @ Error err))),
                writer1)
           | ((n, None), writer1, rc1) \<Rightarrow>
               (case WC_Close writer1 of
                  (Some err, writer2) \<Rightarrow>
                    ((n, Some (Errorf (''failed to close file gcs://''
                          @ filepath_Join [bucket, object] @ '': '' @ Error err))), writer2)
                | (None, writer2) \<Rightarrow> ((n, None), writer2))))"

section \<open>The behaviour mode: results\<close>

text \<open>
  C1, as the code has it: \<open>Append\<close> goes through the same policy as the other
  unsupported operations. In mode \<open>Warn\<close> it returns no writer and the error
  "Append method not implemented"; in mode \<open>Ignore\<close> it returns no writer and no error;
  in mode \<open>Panic\<close> it does not return, it panics with that message.
\<close>

theorem Append_follows_policy:
  "Append (New b Warn) name = Returned (None, Some (Errorf ''Append method not implemented''))
   \<and> Append (New b Ignore) name = Returned (None, None)
   \<and> Append (New b Panic) name = Panicked ''Append method not implemented''"
  by (simp add: Append_def throwUnimplemented_def New_def Panic_def Warn_def Ignore_def)

text \<open>
  C1, as the claim states it, fails: configured with mode \<open>Ignore\<close>, \<open>Append\<close> returns
  without an error.
\<close>

theorem Append_Ignore_returns_no_error:
  "Append (New ''bucket'' Ignore) ''file'' = Returned (None, None)"
  by (simp add: Append_def throwUnimplemented_def New_def Panic_def Warn_def Ignore_def)

text \<open>
  C10: with a behaviour mode other than \<open>Panic\<close>, \<open>Warn\<close> and \<open>Ignore\<close> (the zero value
  \<open>InvalidBehaviour\<close> among them), each of \<open>User\<close>, \<open>Chmod\<close>, \<open>Chown\<close>, \<open>Chtimes\<close>,
  \<open>Walk\<close> and \<open>Append\<close> panics with "Uninitialized gcsfs behaviour mode" and returns
  nothing.
\<close>

theorem uninitialized_mode_panics:
  assumes "BehaviourMode g \<notin> {Panic, Warn, Ignore}"
  shows "User g = Panicked ''Uninitialized gcsfs behaviour mode''
    \<and> Chmod g name perm = Panicked ''Uninitialized gcsfs behaviour mode''
    \<and> Chown g name usr grp = Panicked ''Uninitialized gcsfs behaviour mode''
    \<and> Chtimes g name atime mtime = Panicked ''Uninitialized gcsfs behaviour mode''
    \<and> Walk g root = Panicked ''Uninitialized gcsfs behaviour mode''
    \<and> Append g name = Panicked ''Uninitialized gcsfs behaviour mode''"
  using assms
  by (simp add: User_def Chmod_def Chown_def Chtimes_def Walk_def Append_def
      throwUnimplemented_def)

theorem uninitialized_mode_panics_witness:
  "BehaviourMode (New ''bucket'' InvalidBehaviour) \<notin> {Panic, Warn, Ignore}
   \<and> User (New ''bucket'' InvalidBehaviour) = Panicked ''Uninitialized gcsfs behaviour mode''
   \<and> Chmod (New ''bucket'' InvalidBehaviour) ''f'' 420
       = Panicked ''Uninitialized gcsfs behaviour mode''
   \<and> Append (New ''bucket'' InvalidBehaviour) ''f''
       = Panicked ''Uninitialized gcsfs behaviour mode''"
proof -
  have h: "BehaviourMode (New ''bucket'' InvalidBehaviour) \<notin> {Panic, Warn, Ignore}"
    by (simp add: New_def InvalidBehaviour_def Panic_def Warn_def Ignore_def)
  from uninitialized_mode_panics [OF h, of "''f''" 420] h show ?thesis
    by simp
qed

section \<open>The keys of a bucket stay distinct\<close>

lemma putObject_distinct:
  "distinct (map fst (buckets w b')) \<Longrightarrow> distinct (map fst (buckets (putObject b k bs w) b'))"
  by (auto simp: putObject_def distinct_update)

lemma Object_Delete_distinct:
  "distinct (map fst (buckets w b')) \<Longrightarrow>
     distinct (map fst (buckets (snd (Object_Delete b k w)) b'))"
  by (auto simp: Object_Delete_def distinct_delete split: option.splits)

section \<open>Rename: results\<close>

lemma Copier_Run_failed:
  "Copier_Run b dst src w = (Some e, w1) \<Longrightarrow>
     buckets w1 = buckets w \<and> clock w1 = clock w \<and> copyCalls w1 = copyCalls w + 1
     \<and> runErrs w1 = tl (runErrs w) \<and> attemptErr w b src 0 = Some e"
  by (auto simp: Copier_Run_def Let_def attemptErr_def putObject_def
      split: list.splits option.splits)

lemma Copier_Run_succeeded:
  "Copier_Run b dst src w = (None, w1) \<Longrightarrow>
     (\<exists>ob. lookupObject w b src = Some ob
        \<and> buckets w1 = (buckets w)(b := AList.update dst \<lparr>content = content ob, updated = clock w\<rparr> (buckets w b)))
     \<and> clock w1 = clock w \<and> copyCalls w1 = copyCalls w + 1 \<and> attemptErr w b src 0 = None"
  by (auto simp: Copier_Run_def Let_def attemptErr_def putObject_def
      split: list.splits option.splits)

lemma attemptErr_after_failure:
  assumes "buckets w2 = buckets w" and "runErrs w2 = tl (runErrs w)"
  shows "attemptErr w2 b src i = attemptErr w b src (Suc i)"
proof -
  from assms(1) have "lookupObject w2 b src = lookupObject w b src"
    by (simp add: lookupObject_def)
  with assms(2) show ?thesis
    by (simp add: attemptErr_def drop_Suc cong: list.case_cong option.case_cong)
qed

lemma Rename_loop_success:
  "Rename_loop b newpath oldpath retries err w = (None, w') \<Longrightarrow> retries < 5 \<or> err \<noteq> None \<Longrightarrow>
     \<exists>ob. lookupObject w b oldpath = Some ob
       \<and> map_option content (lookupObject w' b oldpath) = Some (content ob)
       \<and> map_option content (lookupObject w' b newpath) = Some (content ob)"
proof (induction b newpath oldpath retries err w rule: Rename_loop.induct)
  case (1 b newpath oldpath retries err w)
  from "1.prems" have r: "retries < 5"
    by (subst (asm) Rename_loop.simps) (auto split: if_splits)
  obtain res w1 where run: "Copier_Run b newpath oldpath w = (res, w1)"
    by (cases "Copier_Run b newpath oldpath w")
  show ?case
  proof (cases res)
    case None
    with run r "1.prems"(1) have w': "w' = w1"
      by (subst (asm) Rename_loop.simps) simp
    from Copier_Run_succeeded [OF run [unfolded None]] w' show ?thesis
      by (auto simp: lookupObject_def update_conv')
  next
    case (Some e)
    with run r "1.prems"(1)
    have rec: "Rename_loop b newpath oldpath (retries + 1) (Some e) (Sleep 1 w1) = (None, w')"
      by (subst (asm) Rename_loop.simps) simp
    from Copier_Run_failed [OF run [unfolded Some]]
    have same: "buckets (Sleep 1 w1) = buckets w"
      by (simp add: Sleep_def)
    from "1.IH" [OF r run [symmetric] _ rec] Some
    have "\<exists>ob. lookupObject (Sleep 1 w1) b oldpath = Some ob
       \<and> map_option content (lookupObject w' b oldpath) = Some (content ob)
       \<and> map_option content (lookupObject w' b newpath) = Some (content ob)"
      by simp
    with same show ?thesis
      by (simp add: lookupObject_def)
  qed
qed

lemma Rename_loop_all_fail:
  "Rename_loop b newpath oldpath retries err w = (res, w') \<Longrightarrow> retries < 5 \<Longrightarrow>
   \<forall>i < 5 - retries. attemptErr w b oldpath i \<noteq> None \<Longrightarrow>
     res = attemptErr w b oldpath (4 - retries)
     \<and> copyCalls w' = copyCalls w + (5 - retries) \<and> clock w' = clock w + (5 - retries)
     \<and> buckets w' = buckets w"
proof (induction b newpath oldpath retries err w rule: Rename_loop.induct)
  case (1 b newpath oldpath retries err w)
  note r = \<open>retries < 5\<close>
  from "1.prems"(3) r have "attemptErr w b oldpath 0 \<noteq> None"
    by simp
  then obtain e w1 where run: "Copier_Run b newpath oldpath w = (Some e, w1)"
    using Copier_Run_succeeded [of b newpath oldpath w]
    by (cases "Copier_Run b newpath oldpath w") (case_tac a; auto)
  note f = Copier_Run_failed [OF run]
  define w2 where "w2 = Sleep 1 w1"
  have w2: "buckets w2 = buckets w" "runErrs w2 = tl (runErrs w)"
    "clock w2 = clock w + 1" "copyCalls w2 = copyCalls w + 1"
    using f by (simp_all add: Sleep_def w2_def)
  note shift = attemptErr_after_failure [OF w2(1,2), of b oldpath]
  from run r "1.prems"(1)
  have rec: "Rename_loop b newpath oldpath (retries + 1) (Some e) w2 = (res, w')"
    unfolding w2_def by (subst (asm) Rename_loop.simps) simp
  show ?case
  proof (cases "retries + 1 < 5")
    case True
    have later: "\<forall>i < 5 - (retries + 1). attemptErr w2 b oldpath i \<noteq> None"
      using "1.prems"(3) by (simp add: shift)
    from "1.IH" [OF r run [symmetric] _ rec [unfolded w2_def] True later [unfolded w2_def]]
    have "res = attemptErr w2 b oldpath (4 - (retries + 1))
      \<and> copyCalls w' = copyCalls w2 + (5 - (retries + 1))
      \<and> clock w' = clock w2 + (5 - (retries + 1)) \<and> buckets w' = buckets w2"
      by (simp add: w2_def)
    moreover from True have "Suc (4 - (retries + 1)) = 4 - retries"
      by simp
    ultimately show ?thesis
      using w2 True by (auto simp: shift)
  next
    case False
    with r have r4: "retries = 4" by simp
    from rec False have "res = Some e" "w' = w2"
      by (subst (asm) Rename_loop.simps; simp)+
    with f w2 r4 show ?thesis by simp
  qed
qed

lemma Rename_loop_first_success:
  "Rename_loop b newpath oldpath retries err w = (res, w') \<Longrightarrow> k < 5 - retries \<Longrightarrow>
   attemptErr w b oldpath k = None \<Longrightarrow> \<forall>i < k. attemptErr w b oldpath i \<noteq> None \<Longrightarrow>
     res = None \<and> copyCalls w' = copyCalls w + (k + 1) \<and> clock w' = clock w + k"
proof (induction b newpath oldpath retries err w arbitrary: k rule: Rename_loop.induct)
  case (1 b newpath oldpath retries err w)
  from "1.prems"(2) have r: "retries < 5" by simp
  obtain r1 w1 where run: "Copier_Run b newpath oldpath w = (r1, w1)"
    by (cases "Copier_Run b newpath oldpath w")
  show ?case
  proof (cases k)
    case 0
    with "1.prems"(3) Copier_Run_failed [of b newpath oldpath w _ w1] run
    have r1: "r1 = None" by (cases r1) auto
    with run r "1.prems"(1) have "res = None" "w' = w1"
      by (subst (asm) Rename_loop.simps; simp)+
    with Copier_Run_succeeded [OF run [unfolded r1]] 0 show ?thesis
      by simp
  next
    case (Suc j)
    with "1.prems"(4) have "attemptErr w b oldpath 0 \<noteq> None" by simp
    with Copier_Run_succeeded [of b newpath oldpath w w1] run
    obtain e where r1: "r1 = Some e" by (cases r1) auto
    note f = Copier_Run_failed [OF run [unfolded r1]]
    define w2 where "w2 = Sleep 1 w1"
    have w2: "buckets w2 = buckets w" "runErrs w2 = tl (runErrs w)"
      "clock w2 = clock w + 1" "copyCalls w2 = copyCalls w + 1"
      using f by (simp_all add: Sleep_def w2_def)
    note shift = attemptErr_after_failure [OF w2(1,2), of b oldpath]
    from run r1 r "1.prems"(1)
    have rec: "Rename_loop b newpath oldpath (retries + 1) (Some e) w2 = (res, w')"
      unfolding w2_def by (subst (asm) Rename_loop.simps) simp
    have a: "j < 5 - (retries + 1)" using "1.prems"(2) Suc by simp
    have b: "attemptErr w2 b oldpath j = None"
      using "1.prems"(3) Suc by (simp add: shift)
    have c: "\<forall>i < j. attemptErr w2 b oldpath i \<noteq> None"
      using "1.prems"(4) Suc by (simp add: shift)
    from "1.IH" [OF r run [symmetric] _ rec [unfolded w2_def] a b [unfolded w2_def]
        c [unfolded w2_def]] r1
    have "res = None \<and> copyCalls w' = copyCalls w2 + (j + 1) \<and> clock w' = clock w2 + j"
      by (simp add: w2_def)
    with w2 Suc show ?thesis by simp
  qed
qed

text \<open>
  C3: when \<open>Rename(old, new)\<close> returns no error, the object at key \<open>old\<close> existed
  before, is still there afterwards with the same bytes (nothing deletes the source), and
  the object at key \<open>new\<close> holds those bytes.
\<close>

theorem Rename_keeps_source:
  assumes "Rename g oldpath newpath w = (None, w')"
  shows "\<exists>ob. lookupObject w (bucketName g) oldpath = Some ob
       \<and> map_option content (lookupObject w' (bucketName g) oldpath) = Some (content ob)
       \<and> map_option content (lookupObject w' (bucketName g) newpath) = Some (content ob)"
proof (cases "newClientErr w")
  case None
  with assms have "Rename_loop (bucketName g) newpath oldpath 0 None w = (None, w')"
    by (simp add: Rename_def generateEphemeralClient_def)
  then show ?thesis
    by (rule Rename_loop_success) simp
next
  case (Some e)
  with assms show ?thesis
    by (simp add: Rename_def generateEphemeralClient_def)
qed

theorem Rename_keeps_source_witness:
  "Rename (New ''bucket'' Panic) ''MARKER'' ''NEWMARKER''
       (markerWorld [])
     = (None, snd (Rename (New ''bucket'' Panic) ''MARKER'' ''NEWMARKER''
         (markerWorld [])))
   \<and> (\<exists>ob. lookupObject (markerWorld [])
             ''bucket'' ''MARKER'' = Some ob
       \<and> map_option content (lookupObject (snd (Rename (New ''bucket'' Panic) ''MARKER'' ''NEWMARKER''
             (markerWorld []))) ''bucket'' ''MARKER'')
           = Some (content ob)
       \<and> map_option content (lookupObject (snd (Rename (New ''bucket'' Panic) ''MARKER'' ''NEWMARKER''
             (markerWorld []))) ''bucket'' ''NEWMARKER'')
           = Some (content ob))"
proof -
  let ?w = "markerWorld []"
  let ?g = "New ''bucket'' Panic"
  have "fst (Rename ?g ''MARKER'' ''NEWMARKER'' ?w) = None"
    by (simp add: Rename_def generateEphemeralClient_def New_def emptyWorld_def withObjects_def markerWorld_def
        Rename_loop.simps Copier_Run_def lookupObject_def putObject_def)
  then have h: "Rename ?g ''MARKER'' ''NEWMARKER'' ?w
      = (None, snd (Rename ?g ''MARKER'' ''NEWMARKER'' ?w))"
    by (metis prod.collapse)
  from Rename_keeps_source [OF h] h show ?thesis
    by (simp add: New_def)
qed

text \<open>
  C8: with a client in hand, \<open>Rename\<close> requests the copy at most five times. If all
  five attempts fail it returns the error of the fifth, having made five requests; if
  attempt number \<open>k\<close> (from 0, below 5) is the first to succeed it returns nil after
  \<open>k + 1\<close> requests and makes no further one. It sleeps one second after each failed
  attempt: \<open>k\<close> seconds before a success at attempt \<open>k\<close>, five seconds when all fail.
\<close>

theorem Rename_retries:
  assumes "newClientErr w = None" and "Rename g oldpath newpath w = (res, w')"
  shows "((\<forall>i<5. attemptErr w (bucketName g) oldpath i \<noteq> None) \<longrightarrow>
            res = attemptErr w (bucketName g) oldpath 4
            \<and> copyCalls w' = copyCalls w + 5 \<and> clock w' = clock w + 5)
       \<and> (k < 5 \<and> attemptErr w (bucketName g) oldpath k = None
            \<and> (\<forall>i<k. attemptErr w (bucketName g) oldpath i \<noteq> None) \<longrightarrow>
            res = None \<and> copyCalls w' = copyCalls w + (k + 1) \<and> clock w' = clock w + k)"
proof -
  from assms have loop: "Rename_loop (bucketName g) newpath oldpath 0 None w = (res, w')"
    by (simp add: Rename_def generateEphemeralClient_def)
  show ?thesis
    using Rename_loop_all_fail [OF loop] Rename_loop_first_success [OF loop, of k]
    by auto
qed

theorem Rename_retries_witness:
  "newClientErr (markerWorld [Some (IOError ''503''), Some (IOError ''504'')]) = None
   \<and> attemptErr (markerWorld [Some (IOError ''503''), Some (IOError ''504'')]) ''bucket'' ''MARKER'' 0
       = Some (IOError ''503'')
   \<and> attemptErr (markerWorld [Some (IOError ''503''), Some (IOError ''504'')]) ''bucket'' ''MARKER'' 1
       = Some (IOError ''504'')
   \<and> attemptErr (markerWorld [Some (IOError ''503''), Some (IOError ''504'')]) ''bucket'' ''MARKER'' 2
       = None
   \<and> fst (Rename (New ''bucket'' Panic) ''MARKER'' ''NEWMARKER''
         (markerWorld [Some (IOError ''503''), Some (IOError ''504'')])) = None
   \<and> copyCalls (snd (Rename (New ''bucket'' Panic) ''MARKER'' ''NEWMARKER''
         (markerWorld [Some (IOError ''503''), Some (IOError ''504'')]))) = 3
   \<and> clock (snd (Rename (New ''bucket'' Panic) ''MARKER'' ''NEWMARKER''
         (markerWorld [Some (IOError ''503''), Some (IOError ''504'')]))) = 2
   \<and> fst (Rename (New ''bucket'' Panic) ''MARKER'' ''NEWMARKER''
         (markerWorld [Some (IOError ''e1''), Some (IOError ''e2''), Some (IOError ''e3''),
            Some (IOError ''e4''), Some (IOError ''e5'')])) = Some (IOError ''e5'')
   \<and> copyCalls (snd (Rename (New ''bucket'' Panic) ''MARKER'' ''NEWMARKER''
         (markerWorld [Some (IOError ''e1''), Some (IOError ''e2''), Some (IOError ''e3''),
            Some (IOError ''e4''), Some (IOError ''e5'')]))) = 5
   \<and> clock (snd (Rename (New ''bucket'' Panic) ''MARKER'' ''NEWMARKER''
         (markerWorld [Some (IOError ''e1''), Some (IOError ''e2''), Some (IOError ''e3''),
            Some (IOError ''e4''), Some (IOError ''e5'')]))) = 5"
proof -
  let ?g = "New ''bucket'' Panic"
  let ?w = "markerWorld [Some (IOError ''503''), Some (IOError ''504'')]"
  let ?v = "markerWorld [Some (IOError ''e1''), Some (IOError ''e2''), Some (IOError ''e3''),
            Some (IOError ''e4''), Some (IOError ''e5'')]"
  have cw: "newClientErr ?w = None" and cv: "newClientErr ?v = None"
    by (simp_all add: markerWorld_def withObjects_def emptyWorld_def)
  have aw: "attemptErr ?w ''bucket'' ''MARKER'' 0 = Some (IOError ''503'')"
    "attemptErr ?w ''bucket'' ''MARKER'' 1 = Some (IOError ''504'')"
    "attemptErr ?w ''bucket'' ''MARKER'' 2 = None"
    by (simp_all add: attemptErr_def markerWorld_def withObjects_def emptyWorld_def
        lookupObject_def)
  have av: "attemptErr ?v ''bucket'' ''MARKER'' 0 = Some (IOError ''e1'')"
    "attemptErr ?v ''bucket'' ''MARKER'' 1 = Some (IOError ''e2'')"
    "attemptErr ?v ''bucket'' ''MARKER'' 2 = Some (IOError ''e3'')"
    "attemptErr ?v ''bucket'' ''MARKER'' 3 = Some (IOError ''e4'')"
    "attemptErr ?v ''bucket'' ''MARKER'' 4 = Some (IOError ''e5'')"
    by (simp_all add: attemptErr_def markerWorld_def withObjects_def emptyWorld_def
        lookupObject_def)
  have lw: "\<forall>i<2. attemptErr ?w (bucketName ?g) ''MARKER'' i \<noteq> None"
    using aw by (simp add: New_def less_Suc_eq numeral_2_eq_2)
  have lv: "\<forall>i<5. attemptErr ?v (bucketName ?g) ''MARKER'' i \<noteq> None"
  proof (intro allI impI)
    fix i :: nat assume "i < 5"
    then have "i = 0 \<or> i = 1 \<or> i = 2 \<or> i = 3 \<or> i = 4" by arith
    with av show "attemptErr ?v (bucketName ?g) ''MARKER'' i \<noteq> None"
      by (auto simp: New_def)
  qed
  have bn: "bucketName ?g = ''bucket''" by (simp add: New_def)
  from Rename_retries [OF cw prod.collapse [symmetric], of ?g "''MARKER''" "''NEWMARKER''" 2]
    lw aw(3) bn
  have 1: "fst (Rename ?g ''MARKER'' ''NEWMARKER'' ?w) = None
      \<and> copyCalls (snd (Rename ?g ''MARKER'' ''NEWMARKER'' ?w)) = copyCalls ?w + (2 + 1)
      \<and> clock (snd (Rename ?g ''MARKER'' ''NEWMARKER'' ?w)) = clock ?w + 2"
    by simp
  from Rename_retries [OF cv prod.collapse [symmetric], of ?g "''MARKER''" "''NEWMARKER''" 0]
    lv av(5) bn
  have 2: "fst (Rename ?g ''MARKER'' ''NEWMARKER'' ?v) = Some (IOError ''e5'')
      \<and> copyCalls (snd (Rename ?g ''MARKER'' ''NEWMARKER'' ?v)) = copyCalls ?v + 5
      \<and> clock (snd (Rename ?g ''MARKER'' ''NEWMARKER'' ?v)) = clock ?v + 5"
    by simp
  have z: "copyCalls ?w = 0" "clock ?w = 0" "copyCalls ?v = 0" "clock ?v = 0"
    by (simp_all add: markerWorld_def withObjects_def emptyWorld_def)
  from 1 2 z cw aw show ?thesis
    by simp
qed

section \<open>The context-aware reader: results\<close>

lemma Read_fired_funpow:
  assumes "ctx_Err c = Some e"
  shows "((snd \<circ> Read) ^^ n) (InterruptibleCtx c r) = InterruptibleCtx c r"
  using assms by (induction n) simp_all

text \<open>
  C6: a \<open>Read\<close> on the reader that \<open>NewContextAwareReader\<close> builds, when the context is
  done, returns no bytes and the context's error and leaves the wrapped reader as it was
  (it is not called); when the context is not done it returns what the wrapped reader
  returns and advances the wrapped reader as its own \<open>Read\<close> does. So once the context
  is done, any number of further reads return no bytes and never move the source.
\<close>

theorem Read_context_aware:
  "(ctx_Err c = Some e \<longrightarrow>
      Read (NewContextAwareReader c r) = (([], Some e), NewContextAwareReader c r)
      \<and> (\<forall>n. ((snd \<circ> Read) ^^ n) (NewContextAwareReader c r) = NewContextAwareReader c r
             \<and> fst (Read (((snd \<circ> Read) ^^ n) (NewContextAwareReader c r))) = ([], Some e)))
   \<and> (ctx_Err c = None \<longrightarrow>
      fst (Read (NewContextAwareReader c r)) = fst (Read r)
      \<and> snd (Read (NewContextAwareReader c r)) = NewContextAwareReader (elapse c) (snd (Read r)))"
  by (auto simp: NewContextAwareReader_def Read_fired_funpow split: prod.splits)

theorem Read_context_aware_witness:
  "ctx_Err (WithSignal 0 Canceled) = Some Canceled
   \<and> Read (NewContextAwareReader (WithSignal 0 Canceled) (Script [(''abc'', None)]))
       = (([], Some Canceled), NewContextAwareReader (WithSignal 0 Canceled) (Script [(''abc'', None)]))
   \<and> ctx_Err (WithSignal 1 DeadlineExceeded) = None
   \<and> fst (Read (NewContextAwareReader (WithSignal 1 DeadlineExceeded) (Script [(''abc'', None)])))
       = (''abc'', None)
   \<and> snd (Read (NewContextAwareReader (WithSignal 1 DeadlineExceeded) (Script [(''abc'', None)])))
       = NewContextAwareReader (WithSignal 0 DeadlineExceeded) (Script [])"
proof -
  have a: "ctx_Err (WithSignal 0 Canceled) = Some Canceled" by simp
  have b: "ctx_Err (WithSignal 1 DeadlineExceeded) = None" by simp
  have c: "Read (Script [(''abc'', None)]) = ((''abc'', None), Script [])" by simp
  have d: "elapse (WithSignal 1 DeadlineExceeded) = WithSignal 0 DeadlineExceeded" by simp
  from Read_context_aware [of "WithSignal 0 Canceled" Canceled "Script [(''abc'', None)]"]
    Read_context_aware [of "WithSignal 1 DeadlineExceeded" _ "Script [(''abc'', None)]"]
    a b c d
  show ?thesis by simp
qed

section \<open>RemoveAll: results\<close>

lemma Object_Delete_present:
  assumes "deleteErr w k = None" and "k \<in> fst ` set (buckets w b)"
  shows "Object_Delete b k w
    = (None, w\<lparr>buckets := (buckets w)(b := filter (\<lambda>p. fst p \<noteq> k) (buckets w b))\<rparr>)"
proof -
  from assms(2) obtain ob where "lookupObject w b k = Some ob"
    by (cases "lookupObject w b k") (auto simp: lookupObject_def map_of_eq_None_iff)
  moreover have "AList.delete k xs = filter (\<lambda>p. fst p \<noteq> k) xs" for xs :: bucket
    by (induction xs) auto
  ultimately show ?thesis
    using assms(1) by (simp add: Object_Delete_def)
qed

lemma Object_Delete_refused:
  "deleteErr w k = Some e \<Longrightarrow> Object_Delete b k w = (Some e, w)"
  by (simp add: Object_Delete_def)

lemma RemoveAll_loop_listing:
  assumes "distinct ks" and "set ks \<subseteq> fst ` set (buckets w b)"
  shows "RemoveAll_loop b (map Inr ks) w
    = ((case dropWhile (\<lambda>k. deleteErr w k = None) ks of [] \<Rightarrow> None | k # rest \<Rightarrow> deleteErr w k),
       w\<lparr>buckets := (buckets w)(b :=
            filter (\<lambda>p. fst p \<notin> set (takeWhile (\<lambda>k. deleteErr w k = None) ks)) (buckets w b))\<rparr>)"
  using assms
proof (induction ks arbitrary: w)
  case Nil
  then show ?case by simp
next
  case (Cons k ks)
  show ?case
  proof (cases "deleteErr w k")
    case (Some e)
    then show ?thesis
      by (simp add: Object_Delete_refused)
  next
    case None
    let ?w1 = "w\<lparr>buckets := (buckets w)(b := filter (\<lambda>p. fst p \<noteq> k) (buckets w b))\<rparr>"
    from Cons.prems have k: "k \<in> fst ` set (buckets w b)" by simp
    have del: "Object_Delete b k w = (None, ?w1)"
      by (rule Object_Delete_present [OF None k])
    from Cons.prems have d: "distinct ks" and nk: "k \<notin> set ks" by simp_all
    have sub: "set ks \<subseteq> fst ` set (buckets ?w1 b)"
    proof
      fix x assume x: "x \<in> set ks"
      with Cons.prems(2) obtain p where "p \<in> set (buckets w b)" "fst p = x"
        by auto
      moreover from x nk have "x \<noteq> k" by auto
      ultimately show "x \<in> fst ` set (buckets ?w1 b)"
        by force
    qed
    have e: "deleteErr ?w1 = deleteErr w"
      and b1: "buckets ?w1 b = filter (\<lambda>p. fst p \<noteq> k) (buckets w b)"
      by simp_all
    have upd: "?w1\<lparr>buckets := (buckets ?w1)(b := X)\<rparr> = w\<lparr>buckets := (buckets w)(b := X)\<rparr>"
      for X by simp
    have "RemoveAll_loop b (map Inr ks) ?w1
      = ((case dropWhile (\<lambda>k. deleteErr w k = None) ks of [] \<Rightarrow> None | k # rest \<Rightarrow> deleteErr w k),
         w\<lparr>buckets := (buckets w)(b :=
            filter (\<lambda>p. fst p \<notin> set (takeWhile (\<lambda>k. deleteErr w k = None) ks))
              (filter (\<lambda>p. fst p \<noteq> k) (buckets w b)))\<rparr>)"
      using Cons.IH [OF d sub] unfolding e b1 upd .
    with del None show ?thesis
      by (simp add: fun_upd_def)
  qed
qed

text \<open>
  C7: with a client in hand, a listing that does not break off and a bucket whose keys
  are distinct, \<open>RemoveAll(path)\<close> walks the keys that have \<open>path\<close> as prefix in listing
  order and deletes them until a deletion fails. It returns that first failure's error,
  or nil when none fails. Afterwards exactly the keys visited before the failure are
  gone; the key that failed, the keys after it and all other keys are as they were.
  When no key has the prefix, it returns nil and changes nothing.
\<close>

theorem RemoveAll_stops_at_first_failure:
  assumes "newClientErr w = None" and "listErr w = None"
    and "distinct (map fst (buckets w (bucketName g)))"
  shows "RemoveAll g dirname w
      = ((case dropWhile (\<lambda>k. deleteErr w k = None) (matching w (bucketName g) dirname) of
            [] \<Rightarrow> None | k # rest \<Rightarrow> deleteErr w k),
         w\<lparr>buckets := (buckets w)(bucketName g :=
              filter (\<lambda>p. fst p \<notin> set (takeWhile (\<lambda>k. deleteErr w k = None)
                                          (matching w (bucketName g) dirname)))
                (buckets w (bucketName g)))\<rparr>)
    \<and> (matching w (bucketName g) dirname = [] \<longrightarrow> RemoveAll g dirname w = (None, w))"
proof -
  let ?b = "bucketName g"
  let ?ks = "matching w ?b dirname"
  have d: "distinct ?ks"
    using assms(3) by (simp add: matching_def)
  have sub: "set ?ks \<subseteq> fst ` set (buckets w ?b)"
    by (auto simp: matching_def)
  have "RemoveAll g dirname w = RemoveAll_loop ?b (map Inr ?ks) w"
    using assms(1,2) by (simp add: RemoveAll_def generateEphemeralClient_def Objects_def)
  with RemoveAll_loop_listing [OF d sub] show ?thesis
    by simp
qed

theorem RemoveAll_stops_at_first_failure_witness:
  "newClientErr (treeWorld ((deleteErr emptyWorld)(''a/2'' := Some (IOError ''503'')))) = None
   \<and> listErr (treeWorld ((deleteErr emptyWorld)(''a/2'' := Some (IOError ''503'')))) = None
   \<and> distinct (map fst (buckets (treeWorld ((deleteErr emptyWorld)(''a/2'' := Some (IOError ''503''))))
         (bucketName (New ''bucket'' Warn))))
   \<and> fst (RemoveAll (New ''bucket'' Warn) ''a/''
         (treeWorld ((deleteErr emptyWorld)(''a/2'' := Some (IOError ''503''))))) = Some (IOError ''503'')
   \<and> map fst (buckets (snd (RemoveAll (New ''bucket'' Warn) ''a/''
         (treeWorld ((deleteErr emptyWorld)(''a/2'' := Some (IOError ''503'')))))) ''bucket'')
       = [''a/2'', ''a/3'', ''b/1'']
   \<and> fst (RemoveAll (New ''bucket'' Warn) ''a/'' (treeWorld (deleteErr emptyWorld))) = None
   \<and> map fst (buckets (snd (RemoveAll (New ''bucket'' Warn) ''a/''
         (treeWorld (deleteErr emptyWorld)))) ''bucket'') = [''b/1'']
   \<and> RemoveAll (New ''bucket'' Warn) ''c/'' (treeWorld (deleteErr emptyWorld))
       = (None, treeWorld (deleteErr emptyWorld))"
proof -
  let ?g = "New ''bucket'' Warn"
  let ?w = "treeWorld ((deleteErr emptyWorld)(''a/2'' := Some (IOError ''503'')))"
  let ?v = "treeWorld (deleteErr emptyWorld)"
  have hw: "newClientErr ?w = None" "listErr ?w = None"
    "distinct (map fst (buckets ?w (bucketName ?g)))"
    by (simp_all add: treeWorld_def withObjects_def emptyWorld_def New_def)
  have hv: "newClientErr ?v = None" "listErr ?v = None"
    "distinct (map fst (buckets ?v (bucketName ?g)))"
    by (simp_all add: treeWorld_def withObjects_def emptyWorld_def New_def)
  have bn: "bucketName ?g = ''bucket''"
    by (simp add: New_def)
  have mw: "matching ?w ''bucket'' ''a/'' = [''a/1'', ''a/2'', ''a/3'']"
    and mv: "matching ?v ''bucket'' ''a/'' = [''a/1'', ''a/2'', ''a/3'']"
    and mc: "matching ?v ''bucket'' ''c/'' = []"
    by (simp_all add: matching_def treeWorld_def withObjects_def emptyWorld_def)
  have bw: "buckets ?w ''bucket'' = buckets ?v ''bucket''"
    and bv: "buckets ?v ''bucket''
      = [(''a/1'', \<lparr>content = ''one'', updated = 0\<rparr>), (''a/2'', \<lparr>content = ''two'', updated = 0\<rparr>),
         (''a/3'', \<lparr>content = ''three'', updated = 0\<rparr>), (''b/1'', \<lparr>content = ''four'', updated = 0\<rparr>)]"
    by (simp_all add: treeWorld_def withObjects_def emptyWorld_def)
  have dw: "deleteErr ?w = (\<lambda>k. if k = ''a/2'' then Some (IOError ''503'') else None)"
    and dv: "deleteErr ?v = (\<lambda>k. None)"
    by (auto simp: treeWorld_def emptyWorld_def)
  have 1: "fst (RemoveAll ?g ''a/'' ?w) = Some (IOError ''503'')
     \<and> map fst (buckets (snd (RemoveAll ?g ''a/'' ?w)) ''bucket'') = [''a/2'', ''a/3'', ''b/1'']"
    using RemoveAll_stops_at_first_failure [OF hw, of "''a/''"]
    by (simp add: bn mw dw bw bv)
  have 2: "fst (RemoveAll ?g ''a/'' ?v) = None
     \<and> map fst (buckets (snd (RemoveAll ?g ''a/'' ?v)) ''bucket'') = [''b/1'']"
    using RemoveAll_stops_at_first_failure [OF hv, of "''a/''"]
    by (simp add: bn mv dv bv)
  have 3: "RemoveAll ?g ''c/'' ?v = (None, ?v)"
    using RemoveAll_stops_at_first_failure [OF hv, of "''c/''"] mc
    by (simp add: bn)
  from hw 1 2 3 show ?thesis
    by simp
qed

section \<open>StreamIntoDFS: results\<close>

lemma writeChunk_writer: "snd (writeChunk wr w bs n) = snd (wr w bs)"
  by (simp add: writeChunk_def Let_def split: prod.splits)

lemma io_Copy_invariant:
  assumes step: "\<And>w bs. P w \<Longrightarrow> P (snd (wr w bs))" and "P w"
  shows "P (fst (snd (io_Copy wr w rd written)))"
  using assms
proof (induction wr w rd written rule: io_Copy.induct)
  case (1 wr w rd written)
  note step = "1.prems"(1) and Pw = "1.prems"(2)
  obtain bs er rd' where rd: "Read rd = ((bs, er), rd')"
    by (metis prod.collapse)
  define res where "res = (if bs \<noteq> [] then writeChunk wr w bs written else ((written, None), w))"
  obtain written1 ew w1 where res: "res = ((written1, ew), w1)"
    by (metis prod.collapse)
  have w1: "P w1"
  proof (cases "bs = []")
    case True
    with res res_def Pw show ?thesis by simp
  next
    case False
    with res res_def have "w1 = snd (wr w bs)"
      using writeChunk_writer [of wr w bs written] by simp
    with step [OF Pw] show ?thesis by simp
  qed
  show ?case
  proof (cases "ew = None \<and> er = None")
    case True
    with rd res res_def
    have unf: "io_Copy wr w rd written = io_Copy wr w1 rd' written1"
      by (subst io_Copy.simps) simp
    from True have "P (fst (snd (io_Copy wr w1 rd' written1)))"
      using "1.IH" [of "(bs, er)" rd' bs er "(written1, ew)" w1 written1 ew, OF _ _ _ _ _ _ step w1]
        rd res res_def by simp
    with unf show ?thesis by simp
  next
    case False
    with rd res res_def w1 show ?thesis
      by (subst io_Copy.simps) (auto split: option.splits)
  qed
qed

lemma io_Copy_Writer_Write:
  "wBucket (fst (snd (io_Copy Writer_Write wc rd written))) = wBucket wc
   \<and> wKey (fst (snd (io_Copy Writer_Write wc rd written))) = wKey wc
   \<and> wDoesNotExist (fst (snd (io_Copy Writer_Write wc rd written))) = wDoesNotExist wc"
  by (rule io_Copy_invariant [where P = "\<lambda>x. wBucket x = wBucket wc \<and> wKey x = wKey wc
        \<and> wDoesNotExist x = wDoesNotExist wc"]) (simp_all add: Writer_Write_def)

text \<open>
  C5, as the code has it: with \<open>overwrite = false\<close> and the destination key present,
  \<open>StreamIntoDFS\<close> always returns an error and leaves the store as it was. When the
  bytes of the source were copied without error, the error is the store's refusal of the
  condition "does not exist", returned by \<open>Close\<close>. When the copy failed, because a read
  of the source failed or the context was done, the writer is never closed and the error
  is the copy error, which names the destination and carries the text of the cause.
\<close>

theorem StreamIntoDFS_no_overwrite:
  assumes "lookupObject w (utilBucketName g) nm = Some ob"
  shows "snd (snd (StreamIntoDFS g ctx rd nm False w)) = w
    \<and> snd (fst (StreamIntoDFS g ctx rd nm False w))
      = (case snd (fst (io_Copy Writer_Write (NewWriter (utilBucketName g) nm True)
                          (NewContextAwareReader ctx rd) 0)) of
           None \<Rightarrow> Some ErrPrecondition
         | Some err \<Rightarrow> Some (Errorf (''Error copying from input stream to gcs://''
               @ filepath_Join [utilBucketName g, nm] @ '' :  '' @ Error err)))"
proof -
  let ?wc = "NewWriter (utilBucketName g) nm True"
  let ?rd = "NewContextAwareReader ctx rd"
  obtain n err wc1 rd1 where c: "io_Copy Writer_Write ?wc ?rd 0 = ((n, err), wc1, rd1)"
    by (metis prod.collapse)
  from io_Copy_Writer_Write [of ?wc ?rd 0] c
  have wc1: "wBucket wc1 = utilBucketName g" "wKey wc1 = nm" "wDoesNotExist wc1"
    by (simp_all add: NewWriter_def)
  with assms have "Writer_Close wc1 w = (Some ErrPrecondition, w)"
    by (simp add: Writer_Close_def)
  with c show ?thesis
    by (cases err) (simp_all add: StreamIntoDFS_def)
qed

theorem StreamIntoDFS_no_overwrite_witness:
  "lookupObject (markerWorld []) ''bucket'' ''MARKER'' = Some \<lparr>content = ''mark'', updated = 0\<rparr>
   \<and> snd (snd (StreamIntoDFS \<lparr>utilBucketName = ''bucket''\<rparr> Background (Script [(''new'', None)])
         ''MARKER'' False (markerWorld []))) = markerWorld []
   \<and> snd (fst (StreamIntoDFS \<lparr>utilBucketName = ''bucket''\<rparr> Background (Script [(''new'', None)])
         ''MARKER'' False (markerWorld []))) = Some ErrPrecondition"
proof -
  have h: "lookupObject (markerWorld []) (utilBucketName \<lparr>utilBucketName = ''bucket''\<rparr>) ''MARKER''
      = Some \<lparr>content = ''mark'', updated = 0\<rparr>"
    by (simp add: lookupObject_def markerWorld_def withObjects_def emptyWorld_def)
  have c: "snd (fst (io_Copy Writer_Write (NewWriter ''bucket'' ''MARKER'' True)
      (NewContextAwareReader Background (Script [(''new'', None)])) 0)) = None"
    by (simp add: io_Copy.simps NewContextAwareReader_def NewWriter_def writeChunk_def
        Writer_Write_def)
  from StreamIntoDFS_no_overwrite [OF h, of Background "Script [(''new'', None)]"] h c
  show ?thesis by simp
qed

text \<open>
  C5, as the claim states it, fails: the destination exists, \<open>overwrite\<close> is false and
  the context is already cancelled. The first read is refused, \<open>io.Copy\<close> returns the
  cancellation, and the error returned is the copy error, not the store's refusal.
\<close>

theorem StreamIntoDFS_cancelled_not_already_exists:
  "lookupObject (markerWorld []) ''bucket'' ''MARKER'' = Some \<lparr>content = ''mark'', updated = 0\<rparr>
   \<and> fst (StreamIntoDFS \<lparr>utilBucketName = ''bucket''\<rparr> (WithSignal 0 Canceled)
         (Script [(''new'', None)]) ''MARKER'' False (markerWorld []))
     = (0, Some (Errorf ''Error copying from input stream to gcs://bucket/MARKER :  context canceled''))
   \<and> snd (fst (StreamIntoDFS \<lparr>utilBucketName = ''bucket''\<rparr> (WithSignal 0 Canceled)
         (Script [(''new'', None)]) ''MARKER'' False (markerWorld []))) \<noteq> Some ErrPrecondition"
  by (simp add: lookupObject_def markerWorld_def withObjects_def emptyWorld_def StreamIntoDFS_def
      io_Copy.simps NewContextAwareReader_def NewWriter_def filepath_Clean_def cleanStep_def)

section \<open>StreamFromDFS, Stat and CopyToLocal: results\<close>

lemma sublist_middle: "sublist ys (xs @ ys @ zs)"
  by (auto simp: sublist_def)

text \<open>
  The errors of \<open>StreamFromDFS\<close> for a failure to open the source and for a failure to
  close the destination carry the location \<open>filepath.Join(bucketName, object)\<close>.
\<close>

lemma StreamFromDFS_open_failure:
  assumes "lookupObject w b object = None"
  shows "\<exists>m. fst (StreamFromDFS g w b object writer) = (0, Some (Errorf m))
           \<and> sublist (filepath_Join [b, object]) m"
  using assms sublist_middle [of "filepath_Join [b, object]" "''failed to read object gcs://''"]
  by (simp add: StreamFromDFS_def NewReader_def)

lemma StreamFromDFS_close_failure:
  assumes "lookupObject w b object = Some ob"
    and "io_Copy WC_Write writer (Script [(content ob, None)]) 0 = ((n, None), writer1, rc1)"
    and "closeErr writer1 = Some e"
  shows "\<exists>m. fst (StreamFromDFS g w b object writer) = (n, Some (Errorf m))
           \<and> sublist (filepath_Join [b, object]) m"
  using assms sublist_middle [of "filepath_Join [b, object]" "''failed to close file gcs://''"]
  by (simp add: StreamFromDFS_def NewReader_def WC_Close_def)

text \<open>
  C9 fails on a failure of the byte copy. The object \<open>key\<close> of bucket \<open>bucket\<close> exists and
  the destination's first \<open>Write\<close> fails with "disk full": the error returned is
  "failed to fully copy file from GCS - disk full", which contains neither the location
  \<open>bucket/key\<close> nor the bucket's name nor the key.
\<close>

theorem StreamFromDFS_copy_failure_without_location:
  "StreamFromDFS \<lparr>utilBucketName = ''bucket''\<rparr>
      (withObjects ''bucket'' [(''key'', ''DATA'')] emptyWorld) ''bucket'' ''key''
      \<lparr>sink = [], writeErrs = [Some (IOError ''disk full'')], closeErr = None, closed = False\<rparr>
   = ((0, Some (Errorf ''failed to fully copy file from GCS - disk full'')),
      \<lparr>sink = [], writeErrs = [], closeErr = None, closed = False\<rparr>)
   \<and> filepath_Join [''bucket'', ''key''] = ''bucket/key''
   \<and> \<not> sublist ''bucket/key'' ''failed to fully copy file from GCS - disk full''
   \<and> \<not> sublist ''bucket'' ''failed to fully copy file from GCS - disk full''
   \<and> \<not> sublist ''key'' ''failed to fully copy file from GCS - disk full''"
  by code_simp

text \<open>
  C2 fails: \<open>Stat\<close> of a key that is not in the bucket does not return a not-found
  error. It drops the error of \<open>Attrs\<close> and panics on the nil attributes;
  \<open>GetContentSummary\<close>, which makes the same call, returns the error.
\<close>

theorem Stat_missing_key_panics:
  "lookupObject emptyWorld ''bucket'' ''missing'' = None
   \<and> Stat (New ''bucket'' Warn) ''missing'' emptyWorld
       = Panicked ''runtime error: invalid memory address or nil pointer dereference''
   \<and> GetContentSummary (New ''bucket'' Warn) ''missing'' emptyWorld
       = Returned (None, Some ErrObjectNotExist)"
  by (simp add: Stat_def GetContentSummary_def generateEphemeralClient_def New_def Attrs_def
      lookupObject_def emptyWorld_def)

text \<open>In general \<open>Stat\<close> returns no error but that of the client's creation.\<close>

lemma Stat_never_not_found:
  "Stat g nm w = Returned (fi, Some e) \<Longrightarrow> newClientErr w = Some e"
  by (auto simp: Stat_def generateEphemeralClient_def split: option.splits prod.splits)

lemma Stat_missing:
  "newClientErr w = None \<Longrightarrow> lookupObject w (bucketName g) nm = None \<Longrightarrow>
     Stat g nm w = Panicked ''runtime error: invalid memory address or nil pointer dereference''"
  by (simp add: Stat_def generateEphemeralClient_def Attrs_def)

text \<open>
  C4 fails: \<open>CopyToLocal(ctx, src, dst)\<close> reads the remote object named \<open>dst\<close>. With the
  remote objects \<open>remote.txt\<close> and \<open>local.txt\<close> in the bucket, copying \<open>remote.txt\<close> to the
  local file \<open>local.txt\<close> succeeds and leaves in the local file the bytes of the remote
  object \<open>local.txt\<close>; with only \<open>remote.txt\<close> in the bucket the call fails with
  not-found and creates no local file.
\<close>

theorem CopyToLocal_reads_dst:
  "fst (CopyToLocal (New ''bucket'' Warn) ''remote.txt'' ''local.txt''
          (withObjects ''bucket'' [(''remote.txt'', ''REMOTE''), (''local.txt'', ''OTHER'')] emptyWorld))
     = None
   \<and> files (snd (CopyToLocal (New ''bucket'' Warn) ''remote.txt'' ''local.txt''
          (withObjects ''bucket'' [(''remote.txt'', ''REMOTE''), (''local.txt'', ''OTHER'')] emptyWorld)))
        ''local.txt'' = Some ''OTHER''
   \<and> fst (CopyToLocal (New ''bucket'' Warn) ''remote.txt'' ''local.txt''
          (withObjects ''bucket'' [(''remote.txt'', ''REMOTE'')] emptyWorld))
     = Some ErrObjectNotExist
   \<and> files (snd (CopyToLocal (New ''bucket'' Warn) ''remote.txt'' ''local.txt''
          (withObjects ''bucket'' [(''remote.txt'', ''REMOTE'')] emptyWorld)))
        ''local.txt'' = None"
  by (simp add: CopyToLocal_def generateEphemeralClient_def New_def NewReader_def
      lookupObject_def emptyWorld_def withObjects_def os_Create_def io_Copy.simps
      writeChunk_def File_Write_def)

end
